theory Spec2Isabelle
  imports Main
begin

section \<open>Values of the runtime\<close>

text \<open>
  A JavaScript number as far as the dashboard uses one: an integer or \<open>NaN\<close>.
  \<open>Date.prototype.getDate\<close> returns \<open>NaN\<close> on an Invalid Date, and \<open>NaN - 7\<close> is
  \<open>NaN\<close>.
\<close>

datatype number = Num int | NaN

fun number_minus :: "number \<Rightarrow> int \<Rightarrow> number" where
  "number_minus (Num a) b = Num (a - b)"
| "number_minus NaN b = NaN"

text \<open>
  What an \<open>await\<close> or a call can throw: the \<open>RangeError\<close> of date-fns (\<open>format\<close> on an
  Invalid Date) and the rejection of \<open>axios.get\<close> (no response, or a status outside 2xx),
  with its message.
\<close>

datatype error = RangeError | AxiosError string

section \<open>frontend/src/api/client.ts\<close>

text \<open>
  The two interfaces of the file; every field is a string. Both have \<open>id\<close>,
  \<open>subject\<close> and \<open>datetime\<close>, so the fields of the second carry a suffix.
\<close>

record EmailThread =
  id_thread :: string
  subject :: string
  datetime :: string
  author :: string

record EmailThreadDetail =
  id_detail :: string
  subject_detail :: string
  datetime_detail :: string
  author_name :: string
  author_email :: string
  content :: string

definition API_BASE_URL :: string where
  "API_BASE_URL = ''http://localhost:3000/api''"

text \<open>
  A request as \<open>axios.get(url, { params })\<close> issues it, and the response it resolves
  with. The client reads \<open>response.data\<close> only.
\<close>

datatype http_verb = GET | POST

record request =
  verb :: http_verb
  url :: string
  params :: "(string \<times> string) list"

record 'b response =
  status :: nat
  data :: 'b

text \<open>
  The libraries are parameters of the model. \<open>format\<close> of date-fns takes a date and a
  pattern and returns the text or throws; \<open>axios.get\<close> resolves with a response or
  rejects. The date type \<open>'d\<close> is the runtime's \<open>Date\<close>.
\<close>

type_synonym 'd format = "'d \<Rightarrow> string \<Rightarrow> error + string"

type_synonym 'b axios_get = "request \<Rightarrow> error + 'b response"

text \<open>
  An async function runs synchronously up to its first \<open>await\<close>. For
  \<open>getActiveSubjects\<close> that part (lines 23 to 28) builds \<open>params\<close> with two calls of
  \<open>format\<close> and hands the request to \<open>axios.get\<close>; a throw of \<open>format\<close> leaves no
  request behind. The part after the \<open>await\<close> (line 29) returns \<open>response.data\<close>, and
  a rejection of \<open>axios.get\<close> is the rejection of the function's promise.
\<close>

definition getActiveSubjects_request :: "'d format \<Rightarrow> 'd \<Rightarrow> 'd \<Rightarrow> error + request" where
  "getActiveSubjects_request format startDate endDate =
     (case format startDate ''yyyy-MM-dd HH:mm:ss'' of
        Inl e \<Rightarrow> Inl e
      | Inr start_date \<Rightarrow>
          (case format endDate ''yyyy-MM-dd HH:mm:ss'' of
             Inl e \<Rightarrow> Inl e
           | Inr end_date \<Rightarrow>
               Inr \<lparr>verb = GET, url = API_BASE_URL @ ''/active-subjects'',
                    params = [(''start_date'', start_date), (''end_date'', end_date)]\<rparr>))"

definition getNewSubjects_request :: "'d format \<Rightarrow> 'd \<Rightarrow> 'd \<Rightarrow> error + request" where
  "getNewSubjects_request format startDate endDate =
     (case format startDate ''yyyy-MM-dd HH:mm:ss'' of
        Inl e \<Rightarrow> Inl e
      | Inr start_date \<Rightarrow>
          (case format endDate ''yyyy-MM-dd HH:mm:ss'' of
             Inl e \<Rightarrow> Inl e
           | Inr end_date \<Rightarrow>
               Inr \<lparr>verb = GET, url = API_BASE_URL @ ''/new-subjects'',
                    params = [(''start_date'', start_date), (''end_date'', end_date)]\<rparr>))"

definition response_data :: "error + 'b response \<Rightarrow> error + 'b" where
  "response_data settled = (case settled of Inl e \<Rightarrow> Inl e | Inr r \<Rightarrow> Inr (data r))"

text \<open>
  The whole call, awaited: the list of requests issued so far is threaded through, and
  the result is what the returned promise settles with. The TypeScript types of the
  results are not checked at run time; the body type \<open>'b\<close> is whatever the server
  sent.
\<close>

definition getActiveSubjects ::
  "'d format \<Rightarrow> 'b axios_get \<Rightarrow> 'd \<Rightarrow> 'd \<Rightarrow> request list \<Rightarrow> request list \<times> (error + 'b)" where
  "getActiveSubjects format axios_get startDate endDate issued =
     (case getActiveSubjects_request format startDate endDate of
        Inl e \<Rightarrow> (issued, Inl e)
      | Inr req \<Rightarrow> (issued @ [req], response_data (axios_get req)))"

definition getNewSubjects ::
  "'d format \<Rightarrow> 'b axios_get \<Rightarrow> 'd \<Rightarrow> 'd \<Rightarrow> request list \<Rightarrow> request list \<times> (error + 'b)" where
  "getNewSubjects format axios_get startDate endDate issued =
     (case getNewSubjects_request format startDate endDate of
        Inl e \<Rightarrow> (issued, Inl e)
      | Inr req \<Rightarrow> (issued @ [req], response_data (axios_get req)))"

section \<open>The two versions of the App component\<close>

text \<open>
  The sources hold two versions of the component (part 000 and part 001 of the unnamed
  files). Both keep three pieces of React state and start \<open>fetchData\<close> from an effect
  with no dependencies. The model keeps, beside the state, a record of what the
  component did to the world around it: every call of a state setter, every
  \<open>console.error\<close>, every call of a client function and every request handed to
  axios, and the two promises the client functions returned.
\<close>

datatype 'a promise = Pending | Fulfilled 'a | Rejected error

datatype setter =
    SetActiveSubjects "EmailThreadDetail list"
  | SetNewSubjects "EmailThread list"
  | SetLoading bool

datatype 'd api_call = GetActiveSubjects 'd 'd | GetNewSubjects 'd 'd

record 'd app =
  activeSubjects :: "EmailThreadDetail list"
  newSubjects :: "EmailThread list"
  loading :: bool
  setter_log :: "setter list"
  console :: "error list"
  api_calls :: "'d api_call list"
  network :: "request list"
  active_promise :: "EmailThreadDetail list promise option"
  new_promise :: "EmailThread list promise option"
  awaiting :: bool

text \<open>
  Lines 8 to 10 of both versions: two empty arrays and \<open>loading = true\<close>. No client
  function has been called, so neither promise exists yet.
\<close>

definition useState_initial :: "'d app" where
  "useState_initial =
     \<lparr>activeSubjects = [], newSubjects = [], loading = True, setter_log = [],
      console = [], api_calls = [], network = [], active_promise = None,
      new_promise = None, awaiting = False\<rparr>"

definition setActiveSubjects :: "EmailThreadDetail list \<Rightarrow> 'd app \<Rightarrow> 'd app" where
  "setActiveSubjects v s =
     s\<lparr>activeSubjects := v, setter_log := setter_log s @ [SetActiveSubjects v]\<rparr>"

definition setNewSubjects :: "EmailThread list \<Rightarrow> 'd app \<Rightarrow> 'd app" where
  "setNewSubjects v s = s\<lparr>newSubjects := v, setter_log := setter_log s @ [SetNewSubjects v]\<rparr>"

definition setLoading :: "bool \<Rightarrow> 'd app \<Rightarrow> 'd app" where
  "setLoading v s = s\<lparr>loading := v, setter_log := setter_log s @ [SetLoading v]\<rparr>"

definition console_error :: "error \<Rightarrow> 'd app \<Rightarrow> 'd app" where
  "console_error e s = s\<lparr>console := console s @ [e]\<rparr>"

text \<open>
  The operations of \<open>Date\<close> that \<open>fetchData\<close> uses, with \<open>format\<close>, are parameters.
  \<open>new Date(endDate)\<close> copies the date; dates are values here, so the copy is the
  date itself, and \<open>setDate\<close> returns the changed copy (\<open>endDate\<close> keeps its value).
\<close>

record 'd date_lib =
  getDate :: "'d \<Rightarrow> number"
  setDate :: "'d \<Rightarrow> number \<Rightarrow> 'd"
  format :: "'d format"

text \<open>
  Calling a client function from the component: the call is recorded, its synchronous
  part runs, and the promise it returns is pending with the request on the network, or
  already rejected when \<open>format\<close> threw.
\<close>

definition call_getActiveSubjects :: "'d date_lib \<Rightarrow> 'd \<Rightarrow> 'd \<Rightarrow> 'd app \<Rightarrow> 'd app" where
  "call_getActiveSubjects lib startDate endDate s =
     (let s1 = s\<lparr>api_calls := api_calls s @ [GetActiveSubjects startDate endDate]\<rparr>
      in case getActiveSubjects_request (format lib) startDate endDate of
           Inl e \<Rightarrow> s1\<lparr>active_promise := Some (Rejected e)\<rparr>
         | Inr req \<Rightarrow> s1\<lparr>network := network s1 @ [req], active_promise := Some Pending\<rparr>)"

definition call_getNewSubjects :: "'d date_lib \<Rightarrow> 'd \<Rightarrow> 'd \<Rightarrow> 'd app \<Rightarrow> 'd app" where
  "call_getNewSubjects lib startDate endDate s =
     (let s1 = s\<lparr>api_calls := api_calls s @ [GetNewSubjects startDate endDate]\<rparr>
      in case getNewSubjects_request (format lib) startDate endDate of
           Inl e \<Rightarrow> s1\<lparr>new_promise := Some (Rejected e)\<rparr>
         | Inr req \<Rightarrow> s1\<lparr>network := network s1 @ [req], new_promise := Some Pending\<rparr>)"

text \<open>
  The \<open>catch\<close> block (\<open>console.error\<close>) followed by the \<open>finally\<close> block, and the
  \<open>finally\<close> block alone; both end \<open>fetchData\<close>.
\<close>

definition finally_block :: "'d app \<Rightarrow> 'd app" where
  "finally_block s = (setLoading False s)\<lparr>awaiting := False\<rparr>"

definition catch_block :: "error \<Rightarrow> 'd app \<Rightarrow> 'd app" where
  "catch_block e s = finally_block (console_error e s)"

subsection \<open>Part 000: two requests over the last seven days\<close>

text \<open>
  \<open>await Promise.all([p, q])\<close> resumes \<open>fetchData\<close> when both promises are fulfilled,
  with both results, or as soon as one of them is rejected, with its reason; it does not
  wait for the other one then. \<open>resume_part_000\<close> runs after every settlement: while
  \<open>fetchData\<close> is suspended at the \<open>await\<close> it looks at the two promises, in the
  order of the array, and continues with lines 24 and 25, or with the \<open>catch\<close> block.
\<close>

definition resume_part_000 :: "'d app \<Rightarrow> 'd app" where
  "resume_part_000 s =
     (if \<not> awaiting s then s
      else case (active_promise s, new_promise s) of
             (Some (Rejected e), _) \<Rightarrow> catch_block e s
           | (_, Some (Rejected e)) \<Rightarrow> catch_block e s
           | (Some (Fulfilled activeData), Some (Fulfilled newData)) \<Rightarrow>
               finally_block (setNewSubjects newData (setActiveSubjects activeData s))
           | _ \<Rightarrow> s)"

definition fetchData_part_000 :: "'d date_lib \<Rightarrow> 'd \<Rightarrow> 'd app \<Rightarrow> 'd app" where
  "fetchData_part_000 lib now s =
     (let endDate = now;
          startDate = setDate lib endDate (number_minus (getDate lib endDate) 7);
          s1 = call_getActiveSubjects lib startDate endDate s;
          s2 = call_getNewSubjects lib startDate endDate s1
      in resume_part_000 (s2\<lparr>awaiting := True\<rparr>))"

subsection \<open>Part 001: one request over the last day\<close>

definition resume_part_001 :: "'d app \<Rightarrow> 'd app" where
  "resume_part_001 s =
     (if \<not> awaiting s then s
      else case new_promise s of
             Some (Rejected e) \<Rightarrow> catch_block e s
           | Some (Fulfilled newData) \<Rightarrow> finally_block (setNewSubjects newData s)
           | _ \<Rightarrow> s)"

definition fetchData_part_001 :: "'d date_lib \<Rightarrow> 'd \<Rightarrow> 'd app \<Rightarrow> 'd app" where
  "fetchData_part_001 lib now s =
     (let endDate = now;
          startDate = setDate lib endDate (number_minus (getDate lib endDate) 1);
          s1 = call_getNewSubjects lib startDate endDate s
      in resume_part_001 (s1\<lparr>awaiting := True\<rparr>))"

subsection \<open>Settlements\<close>

text \<open>
  What happens after \<open>fetchData\<close> is suspended is decided by the network: each pending
  request settles once, in any order, with a response or a rejection of axios. The
  client function's promise settles with \<open>response.data\<close> or the rejection, and the
  component's continuation runs. A settlement for a promise that is not pending (never
  created, or settled before) changes nothing.
\<close>

datatype settlement =
    ActiveSettled "error + EmailThreadDetail list response"
  | NewSettled "error + EmailThread list response"

definition settle :: "error + 'b \<Rightarrow> 'b promise" where
  "settle r = (case r of Inl e \<Rightarrow> Rejected e | Inr v \<Rightarrow> Fulfilled v)"

fun deliver :: "('d app \<Rightarrow> 'd app) \<Rightarrow> settlement \<Rightarrow> 'd app \<Rightarrow> 'd app" where
  "deliver resume (ActiveSettled r) s =
     (if active_promise s = Some Pending
      then resume (s\<lparr>active_promise := Some (settle (response_data r))\<rparr>)
      else s)"
| "deliver resume (NewSettled r) s =
     (if new_promise s = Some Pending
      then resume (s\<lparr>new_promise := Some (settle (response_data r))\<rparr>)
      else s)"

text \<open>
  One execution of the effect: \<open>fetchData()\<close> from the initial state at the time
  \<open>now\<close> (the value of \<open>new Date()\<close>), then the settlements in the order the network
  delivers them. Every prefix of the list is a point of the execution. An execution is
  taken on its own: under \<open>StrictMode\<close> a development build of React runs the effect
  twice, and each run is such an execution.
\<close>

definition useEffect_part_000 :: "'d date_lib \<Rightarrow> 'd \<Rightarrow> settlement list \<Rightarrow> 'd app" where
  "useEffect_part_000 lib now settlements =
     fold (deliver resume_part_000) settlements (fetchData_part_000 lib now useState_initial)"

definition useEffect_part_001 :: "'d date_lib \<Rightarrow> 'd \<Rightarrow> settlement list \<Rightarrow> 'd app" where
  "useEffect_part_001 lib now settlements =
     fold (deliver resume_part_001) settlements (fetchData_part_001 lib now useState_initial)"

section \<open>A runtime to run the model on: Date in a UTC zone, and format of date-fns\<close>

text \<open>
  The theorems below hold for every \<open>date_lib\<close>. To run the model on concrete dates,
  here is the \<open>Date\<close> of ECMAScript for a host whose local time zone is UTC: a date is
  its time value, the milliseconds since 1970-01-01T00:00:00Z, or \<open>NaN\<close> (Invalid
  Date). Days are turned into year, month and day of the proleptic Gregorian calendar and
  back (\<open>MakeDay\<close> accepts any day number, also 0 or negative ones, and counts on from
  the first of the month).
\<close>

definition msPerDay :: int where
  "msPerDay = 86400000"

definition civil_from_days :: "int \<Rightarrow> int \<times> int \<times> int" where
  "civil_from_days z =
     (let z' = z + 719468;
          era = z' div 146097;
          doe = z' - era * 146097;
          yoe = (doe - doe div 1460 + doe div 36524 - doe div 146096) div 365;
          doy = doe - (365 * yoe + yoe div 4 - yoe div 100);
          mp = (5 * doy + 2) div 153;
          d = doy - (153 * mp + 2) div 5 + 1;
          m = (if mp < 10 then mp + 3 else mp - 9);
          y = yoe + era * 400 + (if m \<le> 2 then 1 else 0)
      in (y, m, d))"

definition days_from_civil :: "int \<Rightarrow> int \<Rightarrow> int \<Rightarrow> int" where
  "days_from_civil y m d =
     (let y' = (if m \<le> 2 then y - 1 else y);
          era = y' div 400;
          yoe = y' - era * 400;
          doy = (153 * (if m > 2 then m - 3 else m + 9) + 2) div 5 + d - 1;
          doe = yoe * 365 + yoe div 4 - yoe div 100 + doy
      in era * 146097 + doe - 719468)"

definition TimeClip :: "int \<Rightarrow> number" where
  "TimeClip t = (if \<bar>t\<bar> > 8640000000000000 then NaN else Num t)"

fun getDate_utc :: "number \<Rightarrow> number" where
  "getDate_utc NaN = NaN"
| "getDate_utc (Num t) = (case civil_from_days (t div msPerDay) of (y, m, d) \<Rightarrow> Num d)"

fun setDate_utc :: "number \<Rightarrow> number \<Rightarrow> number" where
  "setDate_utc (Num t) (Num dt) =
     (case civil_from_days (t div msPerDay) of
        (y, m, d) \<Rightarrow> TimeClip ((days_from_civil y m 1 + dt - 1) * msPerDay + t mod msPerDay))"
| "setDate_utc _ _ = NaN"

text \<open>
  \<open>format\<close> of date-fns (version 2 and later, where the pattern letters are
  \<open>yyyy-MM-dd\<close>) throws a \<open>RangeError\<close> on an Invalid Date. Otherwise it cuts the
  pattern into runs of one repeated letter and single other characters, prints each run
  from the local fields of the date, padded with zeros to the length of the run, and
  copies the other characters. The model knows the letters client.ts uses (\<open>y\<close>,
  \<open>M\<close>, \<open>d\<close>, \<open>H\<close>, \<open>m\<close>, \<open>s\<close>, in runs of at most two letters but for the year);
  date-fns knows more, and for a letter outside the model the answer is \<open>RangeError\<close> as
  well.
\<close>

fun digits :: "nat \<Rightarrow> string" where
  "digits n =
     (if n < 10 then [''0123456789'' ! n]
      else digits (n div 10) @ [''0123456789'' ! (n mod 10)])"

definition addLeadingZeros :: "int \<Rightarrow> nat \<Rightarrow> string" where
  "addLeadingZeros n targetLength =
     (let ds = digits (nat \<bar>n\<bar>)
      in (if n < 0 then [CHR ''-''] else []) @ replicate (targetLength - length ds) (CHR ''0'') @ ds)"

fun runs :: "string \<Rightarrow> (char \<times> nat) list" where
  "runs [] = []"
| "runs (c # cs) =
     (case runs cs of
        [] \<Rightarrow> [(c, 1)]
      | (c', n) # rest \<Rightarrow> if c' = c then (c, Suc n) # rest else (c, 1) # (c', n) # rest)"

definition is_letter :: "char \<Rightarrow> bool" where
  "is_letter c = (c \<in> set ''abcdefghijklmnopqrstuvwxyzABCDEFGHIJKLMNOPQRSTUVWXYZ'')"

definition format_run :: "int \<Rightarrow> char \<times> nat \<Rightarrow> error + string" where
  "format_run t run =
     (case run of (c, n) \<Rightarrow>
        (case civil_from_days (t div msPerDay) of (y, m, d) \<Rightarrow>
           if \<not> is_letter c then Inr (replicate n c)
           else if c = CHR ''y'' \<and> n \<noteq> 2 then Inr (addLeadingZeros (if y > 0 then y else 1 - y) n)
           else if c = CHR ''M'' \<and> n \<le> 2 then Inr (addLeadingZeros m n)
           else if c = CHR ''d'' \<and> n \<le> 2 then Inr (addLeadingZeros d n)
           else if c = CHR ''H'' \<and> n \<le> 2 then Inr (addLeadingZeros ((t mod msPerDay) div 3600000) n)
           else if c = CHR ''m'' \<and> n \<le> 2 then Inr (addLeadingZeros ((t div 60000) mod 60) n)
           else if c = CHR ''s'' \<and> n \<le> 2 then Inr (addLeadingZeros ((t div 1000) mod 60) n)
           else Inl RangeError))"

fun format_runs :: "int \<Rightarrow> (char \<times> nat) list \<Rightarrow> error + string" where
  "format_runs t [] = Inr []"
| "format_runs t (run # rest) =
     (case format_run t run of
        Inl e \<Rightarrow> Inl e
      | Inr a \<Rightarrow> (case format_runs t rest of Inl e \<Rightarrow> Inl e | Inr b \<Rightarrow> Inr (a @ b)))"

fun format_utc :: "number format" where
  "format_utc NaN formatStr = Inl RangeError"
| "format_utc (Num t) formatStr = format_runs t (runs formatStr)"

definition utc_lib :: "number date_lib" where
  "utc_lib = \<lparr>getDate = getDate_utc, setDate = setDate_utc, format = format_utc\<rparr>"

section \<open>What an execution of the effect has done\<close>

text \<open>
  Readings of a state of the component: a request of the execution was rejected; every
  promise the execution created is fulfilled; no promise of the execution is pending
  any more (every issued request has settled).
\<close>

fun is_Rejected :: "'a promise option \<Rightarrow> bool" where
  "is_Rejected (Some (Rejected e)) = True"
| "is_Rejected _ = False"

fun is_Fulfilled :: "'a promise option \<Rightarrow> bool" where
  "is_Fulfilled (Some (Fulfilled v)) = True"
| "is_Fulfilled _ = False"

definition rejected_any :: "'d app \<Rightarrow> bool" where
  "rejected_any s = (is_Rejected (active_promise s) \<or> is_Rejected (new_promise s))"

definition fulfilled_all :: "'d app \<Rightarrow> bool" where
  "fulfilled_all s =
     ((active_promise s = None \<or> is_Fulfilled (active_promise s)) \<and>
      (new_promise s = None \<or> is_Fulfilled (new_promise s)))"

definition all_settled :: "'d app \<Rightarrow> bool" where
  "all_settled s = (active_promise s \<noteq> Some Pending \<and> new_promise s \<noteq> Some Pending)"

fun is_SetLoading :: "setter \<Rightarrow> bool" where
  "is_SetLoading (SetLoading b) = True"
| "is_SetLoading _ = False"

fun is_SetActiveSubjects :: "setter \<Rightarrow> bool" where
  "is_SetActiveSubjects (SetActiveSubjects v) = True"
| "is_SetActiveSubjects _ = False"

text \<open>
  The outcome of an execution, as far as the loading flag and a failure go. While
  \<open>fetchData\<close> waits at its \<open>await\<close> no setter has been called. It stops waiting when
  \<open>Promise.all\<close> settles: when all promises are fulfilled or the first one is rejected.
  From then on \<open>setLoading\<close> has been called once, with \<open>false\<close>. When a request was
  rejected, that call is the only call of a setter, both lists are the empty arrays they
  started as, and one error was logged, the reason of a rejected promise.
\<close>

definition fetch_outcome :: "'d app \<Rightarrow> bool" where
  "fetch_outcome s =
     ((awaiting s \<longleftrightarrow> \<not> rejected_any s \<and> \<not> fulfilled_all s) \<and>
      (awaiting s \<longrightarrow> loading s \<and> setter_log s = []) \<and>
      (\<not> awaiting s \<longrightarrow> \<not> loading s \<and> filter is_SetLoading (setter_log s) = [SetLoading False]) \<and>
      (all_settled s \<longrightarrow> \<not> awaiting s) \<and>
      (rejected_any s \<longrightarrow>
         activeSubjects s = [] \<and> newSubjects s = [] \<and> setter_log s = [SetLoading False] \<and>
         (case console s of
            [e] \<Rightarrow> active_promise s = Some (Rejected e) \<or> new_promise s = Some (Rejected e)
          | _ \<Rightarrow> False)))"

text \<open>
  The states an execution of either version can be in: waiting with nothing done, or
  finished by the \<open>catch\<close> block, or finished by the lines after the \<open>await\<close>.
\<close>

definition reachable_part_000 :: "'d app \<Rightarrow> bool" where
  "reachable_part_000 s =
     (case (active_promise s, new_promise s) of
        (Some pa, Some pn) \<Rightarrow>
          if awaiting s
          then \<not> is_Rejected (Some pa) \<and> \<not> is_Rejected (Some pn) \<and>
               (pa = Pending \<or> pn = Pending) \<and>
               loading s \<and> setter_log s = [] \<and> console s = [] \<and>
               activeSubjects s = [] \<and> newSubjects s = []
          else \<not> loading s \<and>
               (case console s of
                  [] \<Rightarrow>
                    pa = Fulfilled (activeSubjects s) \<and> pn = Fulfilled (newSubjects s) \<and>
                    setter_log s =
                      [SetActiveSubjects (activeSubjects s), SetNewSubjects (newSubjects s),
                       SetLoading False]
                | [e] \<Rightarrow>
                    (pa = Rejected e \<or> pn = Rejected e) \<and> setter_log s = [SetLoading False] \<and>
                    activeSubjects s = [] \<and> newSubjects s = []
                | _ \<Rightarrow> False)
      | _ \<Rightarrow> False)"

definition reachable_part_001 :: "'d app \<Rightarrow> bool" where
  "reachable_part_001 s =
     (active_promise s = None \<and> activeSubjects s = [] \<and>
      (case new_promise s of
         None \<Rightarrow> False
       | Some Pending \<Rightarrow>
           awaiting s \<and> loading s \<and> setter_log s = [] \<and> console s = [] \<and> newSubjects s = []
       | Some (Rejected e) \<Rightarrow>
           \<not> awaiting s \<and> \<not> loading s \<and> setter_log s = [SetLoading False] \<and> console s = [e] \<and>
           newSubjects s = []
       | Some (Fulfilled n) \<Rightarrow>
           \<not> awaiting s \<and> \<not> loading s \<and> setter_log s = [SetNewSubjects n, SetLoading False] \<and>
           console s = [] \<and> newSubjects s = n))"

section \<open>Concrete runs\<close>

text \<open>
  Inputs for running the model: the first of April 2023, midnight UTC, and a week later;
  a server that answers every request with one row; a network that fails.
\<close>

definition april_1 :: number where
  "april_1 = Num 1680307200000"

definition april_8 :: number where
  "april_8 = Num 1680912000000"

definition detail_row :: EmailThreadDetail where
  "detail_row =
     \<lparr>id_detail = ''1'', subject_detail = ''Feature X'', datetime_detail = ''2023-04-02 10:00:00'',
      author_name = ''A'', author_email = ''a@example.org'', content = ''text''\<rparr>"

definition thread_row :: EmailThread where
  "thread_row =
     \<lparr>id_thread = ''1'', subject = ''Feature X'', datetime = ''2023-04-02 10:00:00'', author = ''A''\<rparr>"

definition server_ok :: "'b \<Rightarrow> 'b axios_get" where
  "server_ok body req = Inr \<lparr>status = 200, data = body\<rparr>"

definition network_down :: "'b axios_get" where
  "network_down req = Inl (AxiosError ''Network Error'')"

text \<open>
  An execution of part 000 in which the request for the active subjects is rejected and
  the request for the new subjects has not been answered yet.
\<close>

definition active_rejected_first :: "number app" where
  "active_rejected_first =
     useEffect_part_000 utc_lib april_8 [ActiveSettled (Inl (AxiosError ''Network Error''))]"

text \<open>
  An execution of part 000 in which the active subjects arrive and the request for the
  new subjects is rejected after that.
\<close>

definition new_rejected_last :: "number app" where
  "new_rejected_last =
     useEffect_part_000 utc_lib april_8
       [ActiveSettled (Inr \<lparr>status = 200, data = [detail_row]\<rparr>),
        NewSettled (Inl (AxiosError ''Request failed with status code 500''))]"

text \<open>
  An execution of part 000 that still waits: the active subjects have arrived, the new
  subjects have not. And an execution of part 001 whose only request is rejected.
\<close>

definition active_fulfilled_only :: "number app" where
  "active_fulfilled_only =
     useEffect_part_000 utc_lib april_8 [ActiveSettled (Inr \<lparr>status = 200, data = [detail_row]\<rparr>)]"

definition new_rejected_part_001 :: "number app" where
  "new_rejected_part_001 =
     useEffect_part_001 utc_lib april_8 [NewSettled (Inl (AxiosError ''Network Error''))]"

section \<open>The Thread Origin Resolver of the spec\<close>

text \<open>
  The sources hold the dashboard only; the crawl engine of the spec (Ledger, Classifier,
  Thread Expander, Resolver Orchestrator) has no code in them, and README.md describes
  its approach in prose. The definitions of this section follow the sentences of the
  spec, sections 3, 4, 5 and 7, and each says which. First come the components and the
  pass of one worker over one entry, then the pool of workers whose steps interleave.
\<close>

text \<open>Modelled from the spec: MessageId and the thread reference of section 3, both opaque.\<close>

type_synonym MessageId = string

type_synonym ThreadRef = string

text \<open>
  Modelled from the spec: ListingEntry of section 3, with the \<open>candidateMessageId\<close> that
  steps 1 and 2 of section 4.5 read from the entry.
\<close>

record ListingEntry =
  threadRef :: ThreadRef
  subjectText :: string
  authorDisplay :: string
  timestamp :: int
  replyMarked :: bool
  candidateMessageId :: MessageId

text \<open>Modelled from the spec: ThreadMessage of section 3.\<close>

record ThreadMessage =
  messageId :: MessageId
  message_authorDisplay :: string
  authorContact :: "string option"
  message_timestamp :: int
  message_subjectText :: string
  bodyText :: "string option"
  positionInThread :: nat

text \<open>
  Modelled from the spec: the Heuristic Classifier of section 4.1, \<open>LikelyReply\<close> iff
  \<open>entry.replyMarked\<close> is true, otherwise \<open>LikelyOrigin\<close>.
\<close>

datatype classification = LikelyOrigin | LikelyReply

definition classify :: "ListingEntry \<Rightarrow> classification" where
  "classify entry = (if replyMarked entry then LikelyReply else LikelyOrigin)"

text \<open>
  Modelled from the spec: the Dedup Ledger of section 3, a mutable set of MessageId. An
  operation on it returns its answer and the Ledger after it.
\<close>

type_synonym Ledger = "MessageId set"

text \<open>
  Modelled from the spec: \<open>testAndInsert\<close> of section 4.3. If the id is absent, insert
  it and return false (was new); if present, return true (was already known) without
  mutating.
\<close>

definition testAndInsert :: "MessageId \<Rightarrow> Ledger \<Rightarrow> bool \<times> Ledger" where
  "testAndInsert mid L = (if mid \<in> L then (True, L) else (False, insert mid L))"

text \<open>Modelled from the spec: \<open>contains\<close> of section 4.3, the read-only membership test.\<close>

definition contains :: "Ledger \<Rightarrow> MessageId \<Rightarrow> bool" where
  "contains L mid = (mid \<in> L)"

text \<open>
  Modelled from the spec: \<open>bulkClaim\<close> of section 4.3, which registers every id of a
  sequence and returns the answers aligned with the input order.
\<close>

fun bulkClaim :: "MessageId list \<Rightarrow> Ledger \<Rightarrow> bool list \<times> Ledger" where
  "bulkClaim [] L = ([], L)"
| "bulkClaim (mid # mids) L =
     (case testAndInsert mid L of
        (known, L1) \<Rightarrow> (case bulkClaim mids L1 of (knowns, L2) \<Rightarrow> (known # knowns, L2)))"

text \<open>
  Modelled from the spec: the errors of the Thread Expander (sections 4.2 and 7).
\<close>

datatype expand_error = FetchError | EmptyThreadError

text \<open>
  Modelled from the spec: the external fetch under the Thread Expander (sections 2 and
  6). An attempt delivers the whole thread, or breaks (network, timeout, malformed page)
  after the messages it had received so far. The fetch is a parameter: the data of the
  archive, by thread and by attempt.
\<close>

datatype fetched = Whole "ThreadMessage list" | Broken "ThreadMessage list"

type_synonym transport = "ThreadRef \<Rightarrow> nat \<Rightarrow> fetched"

fun is_Broken :: "fetched \<Rightarrow> bool" where
  "is_Broken (Broken partial) = True"
| "is_Broken (Whole msgs) = False"

text \<open>
  Modelled from the spec: \<open>expand\<close> of section 4.2, which fails with \<open>FetchError\<close> on a
  transport failure, with \<open>EmptyThreadError\<close> if the sequence is empty, and returns the
  sequence otherwise.
\<close>

definition expand :: "transport \<Rightarrow> ThreadRef \<Rightarrow> nat \<Rightarrow> expand_error + ThreadMessage list" where
  "expand fetch thread attempt =
     (case fetch thread attempt of
        Broken partial \<Rightarrow> Inl FetchError
      | Whole [] \<Rightarrow> Inl EmptyThreadError
      | Whole (m # ms) \<Rightarrow> Inr (m # ms))"

text \<open>
  Modelled from the spec: the retry policy of sections 6 and 7, owned by the Resolver. A
  \<open>FetchError\<close> is retried up to a bounded number of further attempts; any other
  answer is final.
\<close>

fun expandWithRetry ::
  "transport \<Rightarrow> ThreadRef \<Rightarrow> nat \<Rightarrow> nat \<Rightarrow> expand_error + ThreadMessage list" where
  "expandWithRetry fetch thread 0 attempt = expand fetch thread attempt"
| "expandWithRetry fetch thread (Suc retries) attempt =
     (case expand fetch thread attempt of
        Inl FetchError \<Rightarrow> expandWithRetry fetch thread retries (Suc attempt)
      | answer \<Rightarrow> answer)"

text \<open>
  Modelled from the spec: the outcome of an entry, as the session report and step 4 of
  section 4.5 get it: skipped (step 1), the entry itself as origin (step 2, fast path),
  the first message of the expansion as origin (step 3), a cross-reference to the record
  that owns the candidate origin's id (step 3), or unresolved (section 7). Step 4 hands
  the chosen candidate to the Origin Registry; the Registry is not read by steps 1 to 3
  and never touches the Ledger, and the model stops at the outcome.
\<close>

datatype outcome =
    Skipped
  | OriginFast ListingEntry
  | OriginExpanded ThreadMessage
  | CrossReference MessageId
  | Unresolved expand_error

text \<open>
  Modelled from the spec: the state of a session as far as the Ledger goes (section 5:
  the Ledger is shared, everything else is local to an entry). Beside the Ledger it
  keeps the threads whose full expansion has been claimed so far (appended by the step
  that calls \<open>bulkClaim\<close>) and the report.
\<close>

record session =
  ledger :: Ledger
  expanded :: "(ThreadRef \<times> ThreadMessage list) list"
  report :: "(ThreadRef \<times> outcome) list"

text \<open>Modelled from the spec: a session starts with an empty Ledger (section 3).\<close>

definition new_session :: session where
  "new_session = \<lparr>ledger = {}, expanded = [], report = []\<rparr>"

text \<open>
  Modelled from the spec: steps 2 (expansion) and 3 of section 4.5 with the timeout rule
  of section 5. A failed expansion claims nothing. After a full expansion \<open>bulkClaim\<close>
  runs over all returned ids; the candidate origin is the first message, and when its id
  was already known the thread is a cross-reference. (The answers of \<open>bulkClaim\<close> are
  as many as the ids, so the first answer exists; \<open>expand\<close> never returns an empty
  sequence, and the branch for one reports the empty thread.)
\<close>

definition fullExpansion :: "transport \<Rightarrow> nat \<Rightarrow> ListingEntry \<Rightarrow> session \<Rightarrow> session" where
  "fullExpansion fetch retries entry s =
     (case expandWithRetry fetch (threadRef entry) retries 0 of
        Inl err \<Rightarrow> s\<lparr>report := report s @ [(threadRef entry, Unresolved err)]\<rparr>
      | Inr [] \<Rightarrow> s\<lparr>report := report s @ [(threadRef entry, Unresolved EmptyThreadError)]\<rparr>
      | Inr (origin # replies) \<Rightarrow>
          (case bulkClaim (map messageId (origin # replies)) (ledger s) of
             (knowns, L) \<Rightarrow>
               s\<lparr>ledger := L,
                 expanded := expanded s @ [(threadRef entry, origin # replies)],
                 report := report s @
                   [(threadRef entry,
                     case knowns of
                       True # others \<Rightarrow> CrossReference (messageId origin)
                     | _ \<Rightarrow> OriginExpanded origin)]\<rparr>))"

text \<open>
  Modelled from the spec: steps 1 and 2 of section 4.5 for one entry. Step 1 skips an
  entry whose id the Ledger contains. A \<open>LikelyOrigin\<close> entry registers its id with
  \<open>testAndInsert\<close> and is the origin itself, without expansion, unless the id was
  already known, which falls through to the full expansion. A \<open>LikelyReply\<close> entry is
  expanded.
\<close>

definition resolveEntry :: "transport \<Rightarrow> nat \<Rightarrow> ListingEntry \<Rightarrow> session \<Rightarrow> session" where
  "resolveEntry fetch retries entry s =
     (if contains (ledger s) (candidateMessageId entry)
      then s\<lparr>report := report s @ [(threadRef entry, Skipped)]\<rparr>
      else case classify entry of
             LikelyOrigin \<Rightarrow>
               (case testAndInsert (candidateMessageId entry) (ledger s) of
                  (True, L) \<Rightarrow> fullExpansion fetch retries entry (s\<lparr>ledger := L\<rparr>)
                | (False, L) \<Rightarrow>
                    s\<lparr>ledger := L, report := report s @ [(threadRef entry, OriginFast entry)]\<rparr>)
           | LikelyReply \<Rightarrow> fullExpansion fetch retries entry s)"

text \<open>
  \<open>resolveEntry\<close> is the pass of a worker that nobody interrupts. Section 5 runs steps 1
  to 4 on a bounded pool of workers, one entry per worker slot at a time, and the Ledger
  operations are linearizable: each of them is one step, and the steps of different
  workers interleave in any order. The rest of this section is that pool.
\<close>

text \<open>
  Modelled from the spec: step 3 of section 4.5 on its own, for a worker that holds a
  full expansion (the candidate origin and the replies): \<open>bulkClaim\<close> over all returned
  ids, and the outcome as in \<open>fullExpansion\<close>.
\<close>

definition claimExpansion ::
  "ListingEntry \<Rightarrow> ThreadMessage \<Rightarrow> ThreadMessage list \<Rightarrow> session \<Rightarrow> session" where
  "claimExpansion entry origin replies s =
     (case bulkClaim (map messageId (origin # replies)) (ledger s) of
        (knowns, L) \<Rightarrow>
          s\<lparr>ledger := L,
            expanded := expanded s @ [(threadRef entry, origin # replies)],
            report := report s @
              [(threadRef entry,
                case knowns of
                  True # others \<Rightarrow> CrossReference (messageId origin)
                | _ \<Rightarrow> OriginExpanded origin)]\<rparr>)"

text \<open>
  Modelled from the spec: where a worker of the pool stands (sections 4.5 and 5). It
  is idle, or it holds an entry before step 1, or after a negative step 1 and before
  step 2, or it waits for the expansion of the entry's thread (the only suspension
  point), or it holds the returned expansion and has not called \<open>bulkClaim\<close> yet.
\<close>

datatype phase =
    Idle
  | Step1 ListingEntry
  | Step2 ListingEntry
  | Expanding ListingEntry
  | Step3 ListingEntry ThreadMessage "ThreadMessage list"

text \<open>
  Modelled from the spec: the pool of section 5. The session state is shared; the
  entries the Listing Source has not handed out yet are consumed in arrival order; every
  worker slot has its phase.
\<close>

record pool =
  shared :: session
  pending :: "ListingEntry list"
  workers :: "phase list"

definition new_pool :: "nat \<Rightarrow> ListingEntry list \<Rightarrow> pool" where
  "new_pool n listing = \<lparr>shared = new_session, pending = listing, workers = replicate n Idle\<rparr>"

definition set_phase :: "nat \<Rightarrow> phase \<Rightarrow> pool \<Rightarrow> pool" where
  "set_phase w ph c = c\<lparr>workers := (workers c)[w := ph]\<rparr>"

definition report_outcome :: "ListingEntry \<Rightarrow> outcome \<Rightarrow> session \<Rightarrow> session" where
  "report_outcome entry out s = s\<lparr>report := report s @ [(threadRef entry, out)]\<rparr>"

text \<open>
  Modelled from the spec: one step of worker \<open>w\<close> (section 4.5, steps 1 to 3; section 5).
  An idle worker takes the next entry. Step 1 is \<open>Ledger.contains\<close>. Step 2 is the
  Classifier and, for a \<open>LikelyOrigin\<close> entry, \<open>testAndInsert\<close>: when another worker
  registered the id since step 1, the answer is ``already known'' and the worker falls
  through to the expansion. The expansion returns (with its retries) and the worker holds
  the sequence, or reports the failure. Step 3 claims the held sequence. A step of a
  worker slot that does not exist, or of an idle worker with no entry left, changes
  nothing.
\<close>

definition worker_step :: "transport \<Rightarrow> nat \<Rightarrow> nat \<Rightarrow> pool \<Rightarrow> pool" where
  "worker_step fetch retries w c =
     (if length (workers c) \<le> w then c
      else case workers c ! w of
             Idle \<Rightarrow>
               (case pending c of
                  [] \<Rightarrow> c
                | entry # rest \<Rightarrow> set_phase w (Step1 entry) (c\<lparr>pending := rest\<rparr>))
           | Step1 entry \<Rightarrow>
               if contains (ledger (shared c)) (candidateMessageId entry)
               then set_phase w Idle (c\<lparr>shared := report_outcome entry Skipped (shared c)\<rparr>)
               else set_phase w (Step2 entry) c
           | Step2 entry \<Rightarrow>
               (case classify entry of
                  LikelyOrigin \<Rightarrow>
                    (case testAndInsert (candidateMessageId entry) (ledger (shared c)) of
                       (True, L) \<Rightarrow>
                         set_phase w (Expanding entry) (c\<lparr>shared := (shared c)\<lparr>ledger := L\<rparr>\<rparr>)
                     | (False, L) \<Rightarrow>
                         set_phase w Idle
                           (c\<lparr>shared :=
                                report_outcome entry (OriginFast entry) ((shared c)\<lparr>ledger := L\<rparr>)\<rparr>))
                | LikelyReply \<Rightarrow> set_phase w (Expanding entry) c)
           | Expanding entry \<Rightarrow>
               (case expandWithRetry fetch (threadRef entry) retries 0 of
                  Inl err \<Rightarrow>
                    set_phase w Idle (c\<lparr>shared := report_outcome entry (Unresolved err) (shared c)\<rparr>)
                | Inr [] \<Rightarrow>
                    set_phase w Idle
                      (c\<lparr>shared := report_outcome entry (Unresolved EmptyThreadError) (shared c)\<rparr>)
                | Inr (origin # replies) \<Rightarrow> set_phase w (Step3 entry origin replies) c)
           | Step3 entry origin replies \<Rightarrow>
               set_phase w Idle (c\<lparr>shared := claimExpansion entry origin replies (shared c)\<rparr>))"

text \<open>
  Modelled from the spec: a run of the pool. The schedule names the worker that takes
  each step; every interleaving of the workers is a schedule, and every prefix of a
  schedule is a point of the session.
\<close>

definition run_pool :: "transport \<Rightarrow> nat \<Rightarrow> nat list \<Rightarrow> pool \<Rightarrow> pool" where
  "run_pool fetch retries schedule c = fold (worker_step fetch retries) schedule c"

text \<open>
  The ids of all threads whose full expansion has been claimed so far, and the ids
  registered by the fast path of step 2.
\<close>

definition expanded_ids :: "session \<Rightarrow> MessageId set" where
  "expanded_ids s = set (concat (map (\<lambda>thread. map messageId (snd thread)) (expanded s)))"

fun fast_path_id :: "ThreadRef \<times> outcome \<Rightarrow> MessageId list" where
  "fast_path_id (thread, OriginFast entry) = [candidateMessageId entry]"
| "fast_path_id (thread, other) = []"

definition fast_path_ids :: "session \<Rightarrow> MessageId set" where
  "fast_path_ids s = set (concat (map fast_path_id (report s)))"

text \<open>
  The example of section 8: T1 (``Feature X'', not reply-marked, id m1) and T2 (``Re:
  Feature X'', reply-marked) whose expansion holds m1, m2 and m3. The second archive
  breaks every fetch of T2 after two messages.
\<close>

definition T1 :: ListingEntry where
  "T1 = \<lparr>threadRef = ''T1'', subjectText = ''Feature X'', authorDisplay = ''A'',
         timestamp = 1, replyMarked = False, candidateMessageId = ''m1''\<rparr>"

definition T2 :: ListingEntry where
  "T2 = \<lparr>threadRef = ''T2'', subjectText = ''Re: Feature X'', authorDisplay = ''B'',
         timestamp = 2, replyMarked = True, candidateMessageId = ''m2''\<rparr>"

definition message :: "MessageId \<Rightarrow> nat \<Rightarrow> ThreadMessage" where
  "message mid position =
     \<lparr>messageId = mid, message_authorDisplay = ''A'', authorContact = None,
      message_timestamp = 1, message_subjectText = ''Feature X'', bodyText = None,
      positionInThread = position\<rparr>"

definition archive :: transport where
  "archive thread attempt =
     (if thread = ''T2'' then Whole [message ''m1'' 0, message ''m2'' 1, message ''m3'' 2]
      else Whole [message ''m1'' 0])"

definition broken_archive :: transport where
  "broken_archive thread attempt = Broken [message ''m1'' 0, message ''m2'' 1]"

section \<open>The client functions\<close>

lemma getActiveSubjects_request_ok:
  assumes "fmt startDate ''yyyy-MM-dd HH:mm:ss'' = Inr start_date"
    and "fmt endDate ''yyyy-MM-dd HH:mm:ss'' = Inr end_date"
  shows "getActiveSubjects_request fmt startDate endDate =
     Inr \<lparr>verb = GET, url = ''http://localhost:3000/api/active-subjects'',
          params = [(''start_date'', start_date), (''end_date'', end_date)]\<rparr>"
  using assms by (simp add: getActiveSubjects_request_def API_BASE_URL_def)

lemma getNewSubjects_request_ok:
  assumes "fmt startDate ''yyyy-MM-dd HH:mm:ss'' = Inr start_date"
    and "fmt endDate ''yyyy-MM-dd HH:mm:ss'' = Inr end_date"
  shows "getNewSubjects_request fmt startDate endDate =
     Inr \<lparr>verb = GET, url = ''http://localhost:3000/api/new-subjects'',
          params = [(''start_date'', start_date), (''end_date'', end_date)]\<rparr>"
  using assms by (simp add: getNewSubjects_request_def API_BASE_URL_def)

text \<open>When \<open>format\<close> throws on either date, no request is issued and the throw is the result.\<close>

lemma getActiveSubjects_format_throws:
  assumes "fmt startDate ''yyyy-MM-dd HH:mm:ss'' = Inl e \<or>
           (\<exists>s. fmt startDate ''yyyy-MM-dd HH:mm:ss'' = Inr s) \<and>
           fmt endDate ''yyyy-MM-dd HH:mm:ss'' = Inl e"
  shows "getActiveSubjects fmt axios_get startDate endDate issued = (issued, Inl e)"
  using assms by (auto simp: getActiveSubjects_def getActiveSubjects_request_def)

lemma getNewSubjects_format_throws:
  assumes "fmt startDate ''yyyy-MM-dd HH:mm:ss'' = Inl e \<or>
           (\<exists>s. fmt startDate ''yyyy-MM-dd HH:mm:ss'' = Inr s) \<and>
           fmt endDate ''yyyy-MM-dd HH:mm:ss'' = Inl e"
  shows "getNewSubjects fmt axios_get startDate endDate issued = (issued, Inl e)"
  using assms by (auto simp: getNewSubjects_def getNewSubjects_request_def)

text \<open>
  C8, as amended. For every pair of dates that \<open>format\<close> accepts, \<open>getActiveSubjects\<close>
  and \<open>getNewSubjects\<close> each add exactly one request to the network: a GET to
  \<open>/active-subjects\<close> or \<open>/new-subjects\<close> under the base URL, with exactly the two
  parameters \<open>start_date\<close> and \<open>end_date\<close>, in this order, holding the two dates as
  \<open>format\<close> printed them with the pattern \<open>yyyy-MM-dd HH:mm:ss\<close>. When axios resolves,
  the result is \<open>response.data\<close>, unchanged; when axios rejects, the result is that
  rejection.
\<close>

theorem getSubjects_one_request:
  assumes "fmt startDate ''yyyy-MM-dd HH:mm:ss'' = Inr start_date"
    and "fmt endDate ''yyyy-MM-dd HH:mm:ss'' = Inr end_date"
  shows
    "getActiveSubjects fmt axios_active startDate endDate issued =
       (issued @
          [\<lparr>verb = GET, url = ''http://localhost:3000/api/active-subjects'',
            params = [(''start_date'', start_date), (''end_date'', end_date)]\<rparr>],
        case axios_active
               \<lparr>verb = GET, url = ''http://localhost:3000/api/active-subjects'',
                params = [(''start_date'', start_date), (''end_date'', end_date)]\<rparr> of
          Inl rejection \<Rightarrow> Inl rejection
        | Inr response \<Rightarrow> Inr (data response)) \<and>
     getNewSubjects fmt axios_new startDate endDate issued =
       (issued @
          [\<lparr>verb = GET, url = ''http://localhost:3000/api/new-subjects'',
            params = [(''start_date'', start_date), (''end_date'', end_date)]\<rparr>],
        case axios_new
               \<lparr>verb = GET, url = ''http://localhost:3000/api/new-subjects'',
                params = [(''start_date'', start_date), (''end_date'', end_date)]\<rparr> of
          Inl rejection \<Rightarrow> Inl rejection
        | Inr response \<Rightarrow> Inr (data response))"
  using assms
  by (simp add: getActiveSubjects_def getNewSubjects_def response_data_def
      getActiveSubjects_request_ok getNewSubjects_request_ok)

lemma format_utc_april_1: "format_utc april_1 ''yyyy-MM-dd HH:mm:ss'' = Inr ''2023-04-01 00:00:00''"
  by code_simp

lemma format_utc_april_8: "format_utc april_8 ''yyyy-MM-dd HH:mm:ss'' = Inr ''2023-04-08 00:00:00''"
  by code_simp

theorem getSubjects_one_request_witness:
  "getActiveSubjects format_utc (server_ok [detail_row]) april_1 april_8 [] =
     ([\<lparr>verb = GET, url = ''http://localhost:3000/api/active-subjects'',
        params = [(''start_date'', ''2023-04-01 00:00:00''), (''end_date'', ''2023-04-08 00:00:00'')]\<rparr>],
      Inr [detail_row]) \<and>
   getNewSubjects format_utc (server_ok [thread_row]) april_1 april_8 [] =
     ([\<lparr>verb = GET, url = ''http://localhost:3000/api/new-subjects'',
        params = [(''start_date'', ''2023-04-01 00:00:00''), (''end_date'', ''2023-04-08 00:00:00'')]\<rparr>],
      Inr [thread_row])"
  using getSubjects_one_request[where fmt = format_utc and startDate = april_1
      and endDate = april_8 and axios_active = "server_ok [detail_row]" and issued = "[]"
      and axios_new = "server_ok [thread_row]", OF format_utc_april_1 format_utc_april_8]
  by (simp add: server_ok_def)

text \<open>
  C8 as stated fails on two inputs. With an Invalid Date as \<open>endDate\<close>, \<open>format\<close>
  throws and \<open>getActiveSubjects\<close> issues no request at all. With valid dates and a
  network that is down, \<open>getNewSubjects\<close> issues its request and returns no response
  body: its promise is rejected.
\<close>

theorem getSubjects_counterexample:
  "getActiveSubjects format_utc (server_ok [detail_row]) april_1 NaN [] = ([], Inl RangeError) \<and>
   getNewSubjects format_utc (network_down :: EmailThread list axios_get) april_1 april_8 [] =
     ([\<lparr>verb = GET, url = ''http://localhost:3000/api/new-subjects'',
        params = [(''start_date'', ''2023-04-01 00:00:00''), (''end_date'', ''2023-04-08 00:00:00'')]\<rparr>],
      Inl (AxiosError ''Network Error''))"
  by code_simp

section \<open>The fetch effect\<close>

lemmas app_steps =
  resume_part_000_def resume_part_001_def catch_block_def finally_block_def
  console_error_def setLoading_def setActiveSubjects_def setNewSubjects_def settle_def

subsection \<open>The reachable states\<close>

lemma reachable_fetchData_part_000:
  "reachable_part_000 (fetchData_part_000 lib now useState_initial)"
  by (auto simp: reachable_part_000_def fetchData_part_000_def useState_initial_def Let_def
      call_getActiveSubjects_def call_getNewSubjects_def app_steps split: sum.splits)

lemma reachable_resume_part_000_active:
  "reachable_part_000 s \<Longrightarrow> active_promise s = Some Pending \<Longrightarrow>
   reachable_part_000 (resume_part_000 (s\<lparr>active_promise := Some (settle r)\<rparr>))"
  by (cases r; cases "awaiting s")
     (auto simp: reachable_part_000_def app_steps split: promise.splits option.splits list.splits)

lemma reachable_resume_part_000_new:
  "reachable_part_000 s \<Longrightarrow> new_promise s = Some Pending \<Longrightarrow>
   reachable_part_000 (resume_part_000 (s\<lparr>new_promise := Some (settle r)\<rparr>))"
  by (cases r; cases "awaiting s")
     (auto simp: reachable_part_000_def app_steps split: promise.splits option.splits list.splits)

lemma reachable_deliver_part_000:
  "reachable_part_000 s \<Longrightarrow> reachable_part_000 (deliver resume_part_000 ev s)"
  by (cases ev) (simp_all add: reachable_resume_part_000_active reachable_resume_part_000_new)

lemma reachable_fold_part_000:
  "reachable_part_000 s \<Longrightarrow> reachable_part_000 (fold (deliver resume_part_000) evs s)"
  by (induction evs arbitrary: s) (simp_all add: reachable_deliver_part_000)

lemma reachable_useEffect_part_000: "reachable_part_000 (useEffect_part_000 lib now evs)"
  unfolding useEffect_part_000_def
  by (rule reachable_fold_part_000[OF reachable_fetchData_part_000])

lemma reachable_part_000_outcome: "reachable_part_000 s \<Longrightarrow> fetch_outcome s"
  unfolding reachable_part_000_def fetch_outcome_def rejected_any_def fulfilled_all_def
    all_settled_def
  by (cases "awaiting s") (auto split: if_splits promise.splits option.splits list.splits)

lemma reachable_fetchData_part_001:
  "reachable_part_001 (fetchData_part_001 lib now useState_initial)"
  by (auto simp: reachable_part_001_def fetchData_part_001_def useState_initial_def Let_def
      call_getNewSubjects_def app_steps split: sum.splits)

lemma reachable_deliver_part_001:
  "reachable_part_001 s \<Longrightarrow> reachable_part_001 (deliver resume_part_001 ev s)"
proof (cases ev)
  case (ActiveSettled r)
  assume "reachable_part_001 s"
  then show ?thesis using ActiveSettled by (simp add: reachable_part_001_def)
next
  case (NewSettled r)
  assume "reachable_part_001 s"
  then show ?thesis using NewSettled
    by (cases "response_data r")
       (auto simp: reachable_part_001_def app_steps split: promise.splits option.splits)
qed

lemma reachable_fold_part_001:
  "reachable_part_001 s \<Longrightarrow> reachable_part_001 (fold (deliver resume_part_001) evs s)"
  by (induction evs arbitrary: s) (simp_all add: reachable_deliver_part_001)

lemma reachable_useEffect_part_001: "reachable_part_001 (useEffect_part_001 lib now evs)"
  unfolding useEffect_part_001_def
  by (rule reachable_fold_part_001[OF reachable_fetchData_part_001])

lemma reachable_part_001_outcome: "reachable_part_001 s \<Longrightarrow> fetch_outcome s"
  unfolding reachable_part_001_def fetch_outcome_def rejected_any_def fulfilled_all_def
    all_settled_def
  by (auto split: if_splits promise.splits option.splits list.splits)

subsection \<open>Calls and requests are made by fetchData alone\<close>

lemma resume_part_000_calls:
  "api_calls (resume_part_000 s) = api_calls s \<and> network (resume_part_000 s) = network s"
  by (simp add: app_steps split: option.splits promise.splits)

lemma resume_part_001_calls:
  "api_calls (resume_part_001 s) = api_calls s \<and> network (resume_part_001 s) = network s"
  by (simp add: app_steps split: option.splits promise.splits)

lemma deliver_calls:
  assumes "\<And>s. api_calls (resume s) = api_calls s \<and> network (resume s) = network s"
  shows "api_calls (deliver resume ev s) = api_calls s \<and> network (deliver resume ev s) = network s"
  by (cases ev) (simp_all add: assms)

lemma fold_deliver_calls:
  assumes "\<And>s. api_calls (resume s) = api_calls s \<and> network (resume s) = network s"
  shows "api_calls (fold (deliver resume) evs s) = api_calls s \<and>
         network (fold (deliver resume) evs s) = network s"
  by (induction evs arbitrary: s) (simp_all add: deliver_calls[OF assms])

lemma fetchData_part_000_calls:
  "api_calls (fetchData_part_000 lib now useState_initial) =
     [GetActiveSubjects (setDate lib now (number_minus (getDate lib now) 7)) now,
      GetNewSubjects (setDate lib now (number_minus (getDate lib now) 7)) now]"
  by (simp add: fetchData_part_000_def Let_def resume_part_000_calls useState_initial_def
      call_getActiveSubjects_def call_getNewSubjects_def split: sum.splits)

lemma fetchData_part_001_calls:
  "api_calls (fetchData_part_001 lib now useState_initial) =
     [GetNewSubjects (setDate lib now (number_minus (getDate lib now) 1)) now] \<and>
   network (fetchData_part_001 lib now useState_initial) =
     (case getNewSubjects_request (format lib)
             (setDate lib now (number_minus (getDate lib now) 1)) now of
        Inl e \<Rightarrow> []
      | Inr req \<Rightarrow> [req])"
  by (simp add: fetchData_part_001_def Let_def resume_part_001_calls useState_initial_def
      call_getNewSubjects_def split: sum.splits)

subsection \<open>The loading flag and a failed request\<close>

text \<open>
  C9, as amended. In every execution of the fetch effect, of either version and
  whatever the order and the outcome of the settlements, \<open>setLoading(false)\<close> is called
  exactly once, when the awaited \<open>Promise.all\<close> settles: once every promise is
  fulfilled, or as soon as the first promise is rejected. Before that the flag is true
  and no setter has been called; after it the flag is false, and in particular it is
  false once every issued request has settled. If any request was rejected, both subject
  lists are still the initial empty arrays, \<open>setLoading(false)\<close> is the only setter that
  was called, and the reason of a rejected promise was logged, once.
\<close>

theorem fetch_effect_outcome:
  "fetch_outcome (useEffect_part_000 lib now settlements) \<and>
   fetch_outcome (useEffect_part_001 lib now settlements)"
  by (simp add: reachable_part_000_outcome reachable_useEffect_part_000
      reachable_part_001_outcome reachable_useEffect_part_001)

theorem fetch_effect_outcome_witness:
  "rejected_any new_rejected_last \<and> all_settled new_rejected_last \<and>
   \<not> awaiting new_rejected_last \<and> \<not> loading new_rejected_last \<and>
   filter is_SetLoading (setter_log new_rejected_last) = [SetLoading False] \<and>
   activeSubjects new_rejected_last = [] \<and> newSubjects new_rejected_last = [] \<and>
   setter_log new_rejected_last = [SetLoading False] \<and>
   awaiting active_fulfilled_only \<and> loading active_fulfilled_only \<and>
   setter_log active_fulfilled_only = [] \<and>
   rejected_any new_rejected_part_001 \<and> \<not> loading new_rejected_part_001 \<and>
   newSubjects new_rejected_part_001 = [] \<and>
   setter_log new_rejected_part_001 = [SetLoading False]"
proof -
  have rejected: "rejected_any new_rejected_last" "rejected_any new_rejected_part_001"
    by code_simp+
  have settled: "all_settled new_rejected_last"
    by code_simp
  have waiting: "awaiting active_fulfilled_only"
    by code_simp
  have "fetch_outcome new_rejected_last"
    unfolding new_rejected_last_def by (rule conjunct1[OF fetch_effect_outcome])
  moreover have "fetch_outcome active_fulfilled_only"
    unfolding active_fulfilled_only_def by (rule conjunct1[OF fetch_effect_outcome])
  moreover have "fetch_outcome new_rejected_part_001"
    unfolding new_rejected_part_001_def by (rule conjunct2[OF fetch_effect_outcome])
  ultimately show ?thesis
    using rejected settled waiting unfolding fetch_outcome_def by blast
qed

text \<open>
  C9 as stated says that the flag is cleared after the issued requests settle. In part
  000 the rejection of the first request ends the wait: \<open>setLoading(false)\<close> has been
  called, and the flag is false, while the request for the new subjects (the second of
  the two on the network) is still pending.
\<close>

theorem loading_cleared_before_all_settled:
  "setter_log active_rejected_first = [SetLoading False] \<and>
   loading active_rejected_first = False \<and>
   length (network active_rejected_first) = 2 \<and>
   new_promise active_rejected_first = Some Pending \<and>
   all_settled active_rejected_first = False"
  by code_simp

subsection \<open>Part 001 and the active subjects\<close>

text \<open>
  C10. In every execution of the fetch effect of part 001, whatever the settlements:
  \<open>getActiveSubjects\<close> is never called (the one call of a client function is
  \<open>getNewSubjects\<close>, from the day before \<open>now\<close> to \<open>now\<close>, and the one request, if
  \<open>format\<close> accepts the dates, is the request of that call); no promise for the active
  subjects exists; \<open>setActiveSubjects\<close> is never called and \<open>activeSubjects\<close> is the
  empty array it started as; the setters that are called are \<open>setNewSubjects\<close>, with the
  data of the fulfilled promise, and \<open>setLoading(false)\<close>. Part 000 calls both client
  functions, from seven days before \<open>now\<close> to \<open>now\<close>.
\<close>

theorem part_001_never_writes_activeSubjects:
  "activeSubjects (useEffect_part_001 lib now settlements) = [] \<and>
   filter is_SetActiveSubjects (setter_log (useEffect_part_001 lib now settlements)) = [] \<and>
   active_promise (useEffect_part_001 lib now settlements) = None \<and>
   api_calls (useEffect_part_001 lib now settlements) =
     [GetNewSubjects (setDate lib now (number_minus (getDate lib now) 1)) now] \<and>
   network (useEffect_part_001 lib now settlements) =
     (case getNewSubjects_request (format lib)
             (setDate lib now (number_minus (getDate lib now) 1)) now of
        Inl e \<Rightarrow> []
      | Inr req \<Rightarrow> [req]) \<and>
   setter_log (useEffect_part_001 lib now settlements) =
     (case new_promise (useEffect_part_001 lib now settlements) of
        Some (Fulfilled newData) \<Rightarrow> [SetNewSubjects newData, SetLoading False]
      | Some (Rejected e) \<Rightarrow> [SetLoading False]
      | _ \<Rightarrow> []) \<and>
   newSubjects (useEffect_part_001 lib now settlements) =
     (case new_promise (useEffect_part_001 lib now settlements) of
        Some (Fulfilled newData) \<Rightarrow> newData
      | _ \<Rightarrow> []) \<and>
   api_calls (useEffect_part_000 lib now settlements) =
     [GetActiveSubjects (setDate lib now (number_minus (getDate lib now) 7)) now,
      GetNewSubjects (setDate lib now (number_minus (getDate lib now) 7)) now]"
proof -
  have r: "reachable_part_001 (useEffect_part_001 lib now settlements)"
    by (rule reachable_useEffect_part_001)
  have c1: "api_calls (useEffect_part_001 lib now settlements) =
      api_calls (fetchData_part_001 lib now useState_initial) \<and>
    network (useEffect_part_001 lib now settlements) =
      network (fetchData_part_001 lib now useState_initial)"
    unfolding useEffect_part_001_def by (rule fold_deliver_calls) (rule resume_part_001_calls)
  have c0: "api_calls (useEffect_part_000 lib now settlements) =
      api_calls (fetchData_part_000 lib now useState_initial)"
    unfolding useEffect_part_000_def
    using fold_deliver_calls[of resume_part_000] resume_part_000_calls by blast
  show ?thesis
    using r c0 c1 fetchData_part_001_calls[of lib now] fetchData_part_000_calls[of lib now]
    by (auto simp: reachable_part_001_def split: option.splits promise.splits)
qed

text \<open>
  On 8 April 2023 in a UTC zone: part 001 asks for the new subjects since 7 April, part
  000 asks both endpoints for the subjects since 1 April.
\<close>

lemma windows_on_april_8:
  "map params (network (useEffect_part_001 utc_lib april_8 [])) =
     [[(''start_date'', ''2023-04-07 00:00:00''), (''end_date'', ''2023-04-08 00:00:00'')]] \<and>
   map url (network (useEffect_part_001 utc_lib april_8 [])) =
     [''http://localhost:3000/api/new-subjects''] \<and>
   map params (network (useEffect_part_000 utc_lib april_8 [])) =
     [[(''start_date'', ''2023-04-01 00:00:00''), (''end_date'', ''2023-04-08 00:00:00'')],
      [(''start_date'', ''2023-04-01 00:00:00''), (''end_date'', ''2023-04-08 00:00:00'')]] \<and>
   map url (network (useEffect_part_000 utc_lib april_8 [])) =
     [''http://localhost:3000/api/active-subjects'', ''http://localhost:3000/api/new-subjects'']"
  by code_simp

section \<open>The Ledger through a session of the Resolver\<close>

lemma testAndInsert_ledger: "snd (testAndInsert mid L) = insert mid L"
  by (auto simp: testAndInsert_def)

lemma bulkClaim_ledger: "snd (bulkClaim mids L) = L \<union> set mids"
  by (induction mids arbitrary: L) (simp_all add: split_beta testAndInsert_ledger)

lemma bulkClaim_length: "length (fst (bulkClaim mids L)) = length mids"
  by (induction mids arbitrary: L) (simp_all add: split_beta)

lemma expandWithRetry_nonempty: "expandWithRetry fetch thread retries attempt \<noteq> Inr []"
  by (induction retries arbitrary: attempt)
     (auto simp: expand_def split: fetched.splits list.splits sum.splits expand_error.splits)

text \<open>What the full expansion does to the Ledger and to the list of expanded threads.\<close>

lemma fullExpansion_ledger:
  "ledger (fullExpansion fetch retries entry s) =
     (case expandWithRetry fetch (threadRef entry) retries 0 of
        Inl err \<Rightarrow> ledger s
      | Inr msgs \<Rightarrow> ledger s \<union> messageId ` set msgs)"
  using expandWithRetry_nonempty[of fetch "threadRef entry" retries 0]
  by (auto simp: fullExpansion_def split_beta bulkClaim_ledger testAndInsert_ledger
      split: sum.splits list.splits)

lemma fullExpansion_expanded:
  "expanded (fullExpansion fetch retries entry s) =
     (case expandWithRetry fetch (threadRef entry) retries 0 of
        Inl err \<Rightarrow> expanded s
      | Inr [] \<Rightarrow> expanded s
      | Inr msgs \<Rightarrow> expanded s @ [(threadRef entry, msgs)])"
  by (simp add: fullExpansion_def split_beta split: sum.splits list.splits)

lemma fullExpansion_fast_path: "fast_path_ids (fullExpansion fetch retries entry s) = fast_path_ids s"
  by (simp add: fullExpansion_def fast_path_ids_def split_beta
      split: sum.splits list.splits bool.splits)

lemma fullExpansion_accounts:
  assumes "ledger s = expanded_ids s \<union> fast_path_ids s"
  shows "ledger (fullExpansion fetch retries entry s) =
     expanded_ids (fullExpansion fetch retries entry s) \<union>
     fast_path_ids (fullExpansion fetch retries entry s)"
  using assms expandWithRetry_nonempty[of fetch "threadRef entry" retries 0]
  unfolding fullExpansion_ledger fullExpansion_fast_path
  by (auto simp: expanded_ids_def fullExpansion_expanded split: sum.splits list.splits)

lemma resolveEntry_accounts:
  assumes "ledger s = expanded_ids s \<union> fast_path_ids s"
  shows "ledger (resolveEntry fetch retries entry s) =
     expanded_ids (resolveEntry fetch retries entry s) \<union>
     fast_path_ids (resolveEntry fetch retries entry s)"
proof (cases "contains (ledger s) (candidateMessageId entry)")
  case True
  then show ?thesis
    using assms by (simp add: resolveEntry_def expanded_ids_def fast_path_ids_def)
next
  case False
  show ?thesis
  proof (cases "classify entry")
    case LikelyReply
    then show ?thesis
      using False fullExpansion_accounts[OF assms] by (simp add: resolveEntry_def)
  next
    case LikelyOrigin
    then show ?thesis
      using False assms
      by (auto simp: resolveEntry_def testAndInsert_def contains_def expanded_ids_def
          fast_path_ids_def)
  qed
qed

lemma resolveEntry_grows: "ledger s \<subseteq> ledger (resolveEntry fetch retries entry s)"
  by (auto simp: resolveEntry_def fullExpansion_ledger testAndInsert_def contains_def
      split: classification.splits sum.splits)

subsection \<open>The pool of workers\<close>

lemma fullExpansion_claimExpansion:
  "fullExpansion fetch retries entry s =
     (case expandWithRetry fetch (threadRef entry) retries 0 of
        Inl err \<Rightarrow> report_outcome entry (Unresolved err) s
      | Inr [] \<Rightarrow> report_outcome entry (Unresolved EmptyThreadError) s
      | Inr (origin # replies) \<Rightarrow> claimExpansion entry origin replies s)"
  by (simp add: fullExpansion_def claimExpansion_def report_outcome_def
      split: sum.splits list.splits)

lemma claimExpansion_ledger:
  "ledger (claimExpansion entry origin replies s) =
     ledger s \<union> messageId ` set (origin # replies)"
  using bulkClaim_ledger[of "map messageId (origin # replies)" "ledger s"]
  by (simp add: claimExpansion_def split_beta del: bulkClaim.simps)

lemma claimExpansion_expanded_ids:
  "expanded_ids (claimExpansion entry origin replies s) =
     expanded_ids s \<union> messageId ` set (origin # replies)"
  by (simp add: claimExpansion_def expanded_ids_def split_beta del: bulkClaim.simps)

lemma claimExpansion_fast_path_ids:
  "fast_path_ids (claimExpansion entry origin replies s) = fast_path_ids s"
  by (simp add: claimExpansion_def fast_path_ids_def split_beta del: bulkClaim.simps
      split: list.splits bool.splits)

lemma report_outcome_ledger: "ledger (report_outcome entry out s) = ledger s"
  by (simp add: report_outcome_def)

lemma report_outcome_expanded_ids: "expanded_ids (report_outcome entry out s) = expanded_ids s"
  by (simp add: report_outcome_def expanded_ids_def)

lemma report_outcome_fast_path_ids:
  "fast_path_ids (report_outcome entry out s) =
     fast_path_ids s \<union> set (fast_path_id (threadRef entry, out))"
  by (simp add: report_outcome_def fast_path_ids_def)

lemma shared_set_phase: "shared (set_phase w ph c) = shared c"
  by (simp add: set_phase_def)


lemma ledger_update_ids:
  "expanded_ids (s\<lparr>ledger := L\<rparr>) = expanded_ids s"
  "fast_path_ids (s\<lparr>ledger := L\<rparr>) = fast_path_ids s"
  by (simp_all add: expanded_ids_def fast_path_ids_def)

lemmas session_account =
  ledger_update_ids
  claimExpansion_ledger claimExpansion_expanded_ids claimExpansion_fast_path_ids
  report_outcome_ledger report_outcome_expanded_ids report_outcome_fast_path_ids
  shared_set_phase

text \<open>Every step of every worker keeps the account of the Ledger, and only adds to it.\<close>

lemma worker_step_accounts:
  assumes "ledger (shared c) = expanded_ids (shared c) \<union> fast_path_ids (shared c)"
  shows "ledger (shared (worker_step fetch retries w c)) =
     expanded_ids (shared (worker_step fetch retries w c)) \<union>
     fast_path_ids (shared (worker_step fetch retries w c))"
proof (cases "length (workers c) \<le> w")
  case True
  with assms show ?thesis by (simp add: worker_step_def)
next
  case False
  show ?thesis
  proof (cases "workers c ! w")
    case Idle
    with False assms show ?thesis
      by (simp add: worker_step_def session_account split: list.splits)
  next
    case (Step1 entry)
    with False assms show ?thesis
      by (simp add: worker_step_def session_account)
  next
    case (Step2 entry)
    with False assms show ?thesis
      by (cases "classify entry")
         (auto simp: worker_step_def session_account testAndInsert_def)
  next
    case (Expanding entry)
    with False assms show ?thesis
      by (simp add: worker_step_def session_account split: sum.splits list.splits)
  next
    case (Step3 entry origin replies)
    with False assms show ?thesis
      by (simp add: worker_step_def session_account) blast
  qed
qed


lemma worker_step_grows: "ledger (shared c) \<subseteq> ledger (shared (worker_step fetch retries w c))"
proof (cases "length (workers c) \<le> w")
  case True
  then show ?thesis by (simp add: worker_step_def)
next
  case False
  then show ?thesis
    by (cases "workers c ! w")
       (auto simp: worker_step_def session_account testAndInsert_def
        split: list.splits classification.splits sum.splits)
qed

lemma run_pool_accounts:
  assumes "ledger (shared c) = expanded_ids (shared c) \<union> fast_path_ids (shared c)"
  shows "ledger (shared (run_pool fetch retries schedule c)) =
     expanded_ids (shared (run_pool fetch retries schedule c)) \<union>
     fast_path_ids (shared (run_pool fetch retries schedule c))"
  using assms unfolding run_pool_def
  by (induction schedule arbitrary: c) (simp_all add: worker_step_accounts)

lemma run_pool_grows: "ledger (shared c) \<subseteq> ledger (shared (run_pool fetch retries schedule c))"
  unfolding run_pool_def
proof (induction schedule arbitrary: c)
  case Nil
  show ?case by simp
next
  case (Cons w schedule)
  have "ledger (shared c) \<subseteq> ledger (shared (worker_step fetch retries w c))"
    by (rule worker_step_grows)
  also have "\<dots> \<subseteq> ledger (shared (fold (worker_step fetch retries) schedule
      (worker_step fetch retries w c)))"
    by (rule Cons.IH)
  finally show ?case by simp
qed

text \<open>
  C3, as amended. The operations of the Ledger never remove an entry, and no step of
  any worker does: along every schedule of the pool the Ledger only grows. At every
  point of a session that started with an empty Ledger, under every interleaving of
  the workers' steps, the Ledger is the union of the message ids of all threads whose
  full expansion has been claimed so far (\<open>bulkClaim\<close>, step 3), together with the ids
  that step 2 registered for the entries it took as origins without an expansion.
\<close>

theorem ledger_grows_and_accounts:
  "L \<subseteq> snd (testAndInsert mid L) \<and>
   L \<subseteq> snd (bulkClaim mids L) \<and>
   ledger (shared c) \<subseteq> ledger (shared (run_pool fetch retries schedule c)) \<and>
   ledger (shared (run_pool fetch retries schedule (new_pool n listing))) =
     expanded_ids (shared (run_pool fetch retries schedule (new_pool n listing))) \<union>
     fast_path_ids (shared (run_pool fetch retries schedule (new_pool n listing)))"
proof -
  have "ledger (shared (new_pool n listing)) =
      expanded_ids (shared (new_pool n listing)) \<union> fast_path_ids (shared (new_pool n listing))"
    by (simp add: new_pool_def new_session_def expanded_ids_def fast_path_ids_def)
  then show ?thesis
    using run_pool_accounts run_pool_grows
    by (auto simp: testAndInsert_ledger bulkClaim_ledger)
qed

text \<open>
  C3 as stated fails at two points of a session with one worker. After the first entry
  of the example of section 8: T1 is not reply-marked, so step 2 registers m1 without
  an expansion; the worker is idle again, the Ledger holds m1 and no thread has been
  expanded. And between steps 2 and 3 for T2: the expansion has returned m1, m2 and m3,
  the worker holds them, and the Ledger is still empty.
\<close>

theorem ledger_not_union_of_expanded:
  "ledger (shared (run_pool archive 2 [0, 0, 0] (new_pool 1 [T1]))) = {''m1''} \<and>
   workers (run_pool archive 2 [0, 0, 0] (new_pool 1 [T1])) = [Idle] \<and>
   expanded (shared (run_pool archive 2 [0, 0, 0] (new_pool 1 [T1]))) = [] \<and>
   expanded_ids (shared (run_pool archive 2 [0, 0, 0] (new_pool 1 [T1]))) = {} \<and>
   ledger (shared (run_pool archive 2 [0, 0, 0] (new_pool 1 [T1]))) \<noteq>
     expanded_ids (shared (run_pool archive 2 [0, 0, 0] (new_pool 1 [T1]))) \<and>
   workers (run_pool archive 2 [0, 0, 0, 0] (new_pool 1 [T2])) =
     [Step3 T2 (message ''m1'' 0) [message ''m2'' 1, message ''m3'' 2]] \<and>
   ledger (shared (run_pool archive 2 [0, 0, 0, 0] (new_pool 1 [T2]))) = {}"
  by code_simp

text \<open>
  The whole example of section 8 with one worker, in both orders of the listing: the
  Ledger ends as m1, m2 and m3.
\<close>

lemma section_8_example:
  "ledger (shared (run_pool archive 2 (replicate 8 0) (new_pool 1 [T1, T2]))) =
     {''m1'', ''m2'', ''m3''} \<and>
   map snd (report (shared (run_pool archive 2 (replicate 8 0) (new_pool 1 [T1, T2])))) =
     [OriginFast T1, CrossReference ''m1''] \<and>
   ledger (shared (run_pool archive 2 (replicate 8 0) (new_pool 1 [T2, T1]))) =
     {''m1'', ''m2'', ''m3''} \<and>
   map snd (report (shared (run_pool archive 2 (replicate 8 0) (new_pool 1 [T2, T1])))) =
     [OriginExpanded (message ''m1'' 0), Skipped]"
  by code_simp

text \<open>
  A lost race, with two workers and the entry T1 listed twice. Both workers pass step 1
  before either registers m1. Worker 0 wins \<open>testAndInsert\<close> and takes the entry as the
  origin. Worker 1 is answered ``already known'' and falls through to the expansion (the
  state after six steps); two steps later it has claimed the expansion and ends with a
  cross-reference. The Ledger is accounted for all the way.
\<close>

lemma lost_race:
  "workers (run_pool archive 2 [0, 1, 0, 1, 0, 1] (new_pool 2 [T1, T1])) =
     [Idle, Expanding T1] \<and>
   ledger (shared (run_pool archive 2 [0, 1, 0, 1, 0, 1] (new_pool 2 [T1, T1]))) = {''m1''} \<and>
   map snd (report (shared (run_pool archive 2 [0, 1, 0, 1, 0, 1, 1, 1] (new_pool 2 [T1, T1])))) =
     [OriginFast T1, CrossReference ''m1''] \<and>
   expanded (shared (run_pool archive 2 [0, 1, 0, 1, 0, 1, 1, 1] (new_pool 2 [T1, T1]))) =
     [(''T1'', [message ''m1'' 0])] \<and>
   ledger (shared (run_pool archive 2 [0, 1, 0, 1, 0, 1, 1, 1] (new_pool 2 [T1, T1]))) = {''m1''}"
  by code_simp

text \<open>
  A worker that takes four steps in a row from step 1, with no entry left to take
  afterwards, has done to the session what \<open>resolveEntry\<close> does, and is idle again.
\<close>

lemma set_phase_fields:
  "pending (set_phase w ph c) = pending c"
  "length (workers (set_phase w ph c)) = length (workers c)"
  "w < length (workers c) \<Longrightarrow> workers (set_phase w ph c) ! w = ph"
  by (simp_all add: set_phase_def)

lemma worker_step_Idle_done:
  "w < length (workers c) \<Longrightarrow> workers c ! w = Idle \<Longrightarrow> pending c = [] \<Longrightarrow>
   worker_step fetch retries w c = c"
  by (simp add: worker_step_def)

lemma worker_step_Step3:
  "w < length (workers c) \<Longrightarrow> workers c ! w = Step3 entry origin replies \<Longrightarrow>
   worker_step fetch retries w c =
     set_phase w Idle (c\<lparr>shared := claimExpansion entry origin replies (shared c)\<rparr>)"
  by (simp add: worker_step_def)

lemma worker_step_Expanding:
  "w < length (workers c) \<Longrightarrow> workers c ! w = Expanding entry \<Longrightarrow> pending c = [] \<Longrightarrow>
   shared (worker_step fetch retries w (worker_step fetch retries w c)) =
     fullExpansion fetch retries entry (shared c) \<and>
   workers (worker_step fetch retries w (worker_step fetch retries w c)) ! w = Idle \<and>
   pending (worker_step fetch retries w (worker_step fetch retries w c)) = [] \<and>
   w < length (workers (worker_step fetch retries w (worker_step fetch retries w c)))"
  by (simp add: worker_step_def fullExpansion_claimExpansion set_phase_fields shared_set_phase
      split: sum.splits list.splits)


lemma worker_alone:
  assumes w: "w < length (workers c)" and at: "workers c ! w = Step1 entry"
    and none: "pending c = []"
  shows "shared (run_pool fetch retries [w, w, w, w] c) =
           resolveEntry fetch retries entry (shared c) \<and>
         workers (run_pool fetch retries [w, w, w, w] c) ! w = Idle"
proof (cases "contains (ledger (shared c)) (candidateMessageId entry)")
  case True
  define c1 where "c1 = set_phase w Idle (c\<lparr>shared := report_outcome entry Skipped (shared c)\<rparr>)"
  have first: "worker_step fetch retries w c = c1"
    using w at True by (simp add: worker_step_def c1_def)
  have idle: "w < length (workers c1)" "workers c1 ! w = Idle" "pending c1 = []"
    using w none by (simp_all add: c1_def set_phase_def)
  have "run_pool fetch retries [w, w, w, w] c = c1"
    by (simp add: run_pool_def first worker_step_Idle_done[OF idle])
  then show ?thesis
    using True idle by (simp add: c1_def shared_set_phase resolveEntry_def report_outcome_def)
next
  case False
  have first: "worker_step fetch retries w c = set_phase w (Step2 entry) c"
    using w at False by (simp add: worker_step_def)
  define c1 where "c1 = set_phase w (Step2 entry) c"
  have at1: "w < length (workers c1)" "workers c1 ! w = Step2 entry" "pending c1 = []"
    "shared c1 = shared c"
    using w none by (simp_all add: c1_def set_phase_def)
  show ?thesis
  proof (cases "classify entry")
    case LikelyReply
    define c2 where "c2 = set_phase w (Expanding entry) c1"
    have second: "worker_step fetch retries w c1 = c2"
      using at1 LikelyReply by (simp add: worker_step_def c2_def)
    have at2: "w < length (workers c2)" "workers c2 ! w = Expanding entry" "pending c2 = []"
      "shared c2 = shared c"
      using at1 by (simp_all add: c2_def set_phase_def)
    have "run_pool fetch retries [w, w, w, w] c =
        worker_step fetch retries w (worker_step fetch retries w c2)"
      by (simp add: run_pool_def first c1_def[symmetric] second)
    then show ?thesis
      using worker_step_Expanding[OF at2(1-3), of fetch retries] at2(4) False LikelyReply
      by (simp add: resolveEntry_def)
  next
    case LikelyOrigin
    define c2 where "c2 = set_phase w Idle
        (c1\<lparr>shared := report_outcome entry (OriginFast entry)
          ((shared c1)\<lparr>ledger := insert (candidateMessageId entry) (ledger (shared c1))\<rparr>)\<rparr>)"
    have second: "worker_step fetch retries w c1 = c2"
      using at1 LikelyOrigin False
      by (simp add: worker_step_def c2_def testAndInsert_def contains_def)
    have idle: "w < length (workers c2)" "workers c2 ! w = Idle" "pending c2 = []"
      using at1 by (simp_all add: c2_def set_phase_def)
    have "run_pool fetch retries [w, w, w, w] c = c2"
      by (simp add: run_pool_def first c1_def[symmetric] second worker_step_Idle_done[OF idle])
    then show ?thesis
      using idle at1(4) False LikelyOrigin
      by (simp add: c2_def shared_set_phase resolveEntry_def report_outcome_def
          testAndInsert_def contains_def)
  qed
qed

section \<open>A failed expansion and the Ledger\<close>

lemma expand_Broken: "is_Broken (fetch thread attempt) \<Longrightarrow> expand fetch thread attempt = Inl FetchError"
  by (cases "fetch thread attempt") (simp_all add: expand_def)

lemma expandWithRetry_all_Broken:
  "(\<And>k. k \<le> retries \<Longrightarrow> is_Broken (fetch thread (attempt + k))) \<Longrightarrow>
   expandWithRetry fetch thread retries attempt = Inl FetchError"
proof (induction retries arbitrary: attempt)
  case 0
  from 0[of 0] show ?case by (simp add: expand_Broken)
next
  case (Suc retries)
  from Suc.prems[of 0] have first: "expand fetch thread attempt = Inl FetchError"
    by (simp add: expand_Broken)
  have "expandWithRetry fetch thread retries (Suc attempt) = Inl FetchError"
  proof (rule Suc.IH)
    fix k assume "k \<le> retries"
    then show "is_Broken (fetch thread (Suc attempt + k))"
      using Suc.prems[of "Suc k"] by simp
  qed
  with first show ?case by simp
qed

lemma resolveEntry_Unresolved:
  assumes "report (resolveEntry fetch retries entry s) = report s @ [(threadRef entry, Unresolved err)]"
  shows "ledger (resolveEntry fetch retries entry s) = ledger s \<and>
         expanded (resolveEntry fetch retries entry s) = expanded s"
proof (cases "contains (ledger s) (candidateMessageId entry)")
  case True
  with assms show ?thesis by (simp add: resolveEntry_def)
next
  case False
  show ?thesis
  proof (cases "classify entry")
    case LikelyOrigin
    with False assms show ?thesis
      by (simp add: resolveEntry_def testAndInsert_def contains_def)
  next
    case LikelyReply
    with False assms show ?thesis
      by (auto simp: resolveEntry_def fullExpansion_def split_beta
          split: sum.splits list.splits if_splits bool.splits)
  qed
qed

text \<open>
  C7. The full expansion of a thread changes the Ledger all or nothing: when the
  expansion fails (a timeout or another transport failure on the last attempt, or an
  empty thread), the Ledger after it is the Ledger before it, and when it succeeds, every
  id of the returned sequence is in the Ledger. An entry that the Resolver reports as
  unresolved has left the Ledger and the list of expanded threads as they were. In
  particular, when every attempt for a thread breaks, whatever messages the broken
  attempts had received, the expansion fails with \<open>FetchError\<close> and none of their ids
  is claimed.
\<close>

theorem failed_expansion_claims_nothing:
  "ledger (fullExpansion fetch retries entry s) =
     (case expandWithRetry fetch (threadRef entry) retries 0 of
        Inl err \<Rightarrow> ledger s
      | Inr msgs \<Rightarrow> ledger s \<union> messageId ` set msgs) \<and>
   (report (resolveEntry fetch retries entry s) = report s @ [(threadRef entry, Unresolved err)] \<longrightarrow>
      ledger (resolveEntry fetch retries entry s) = ledger s \<and>
      expanded (resolveEntry fetch retries entry s) = expanded s) \<and>
   ((\<forall>attempt. is_Broken (fetch (threadRef entry) attempt)) \<longrightarrow>
      expandWithRetry fetch (threadRef entry) retries 0 = Inl FetchError \<and>
      ledger (fullExpansion fetch retries entry s) = ledger s)"
proof -
  have "expandWithRetry fetch (threadRef entry) retries 0 = Inl FetchError"
    if "\<forall>attempt. is_Broken (fetch (threadRef entry) attempt)"
    using that by (intro expandWithRetry_all_Broken) simp
  then show ?thesis
    using resolveEntry_Unresolved[of fetch retries entry s err]
    by (auto simp: fullExpansion_ledger)
qed

theorem failed_expansion_claims_nothing_witness:
  "(\<forall>attempt. is_Broken (broken_archive (threadRef T2) attempt)) \<and>
   report (resolveEntry broken_archive 2 T2 new_session) =
     report new_session @ [(threadRef T2, Unresolved FetchError)] \<and>
   expandWithRetry broken_archive (threadRef T2) 2 0 = Inl FetchError \<and>
   ledger (fullExpansion broken_archive 2 T2 new_session) = ledger new_session \<and>
   ledger (resolveEntry broken_archive 2 T2 new_session) = ledger new_session \<and>
   expanded (resolveEntry broken_archive 2 T2 new_session) = expanded new_session \<and>
   ledger (fullExpansion archive 2 T2 new_session) = {''m1'', ''m2'', ''m3''}"
proof -
  have broken: "\<forall>attempt. is_Broken (broken_archive (threadRef T2) attempt)"
    by (simp add: broken_archive_def)
  have unresolved: "report (resolveEntry broken_archive 2 T2 new_session) =
      report new_session @ [(threadRef T2, Unresolved FetchError)]"
    by code_simp
  have whole: "expandWithRetry archive (threadRef T2) 2 0 =
      Inr [message ''m1'' 0, message ''m2'' 1, message ''m3'' 2]"
    by code_simp
  have empty: "ledger new_session = {}"
    by (simp add: new_session_def)
  show ?thesis
    using broken unresolved
      failed_expansion_claims_nothing[of broken_archive 2 T2 new_session FetchError]
      failed_expansion_claims_nothing[of archive 2 T2 new_session FetchError]
    by (auto simp: whole empty message_def)
qed

end
